theory Spec2Isabelle
  imports Complex_Main "HOL-Library.Product_Lexorder" "HOL-Library.Multiset"
begin

section \<open>Strings, ranks and Python primitives\<close>

text \<open>
  The program's strings are Python \<open>str\<close> values holding Russian text. A string is
  modelled as the list of its Unicode code points, so that \<open>length\<close>, slicing and
  comparison count what Python counts.
\<close>

type_synonym ustring = "nat list"

datatype py_error = ValueError | TypeError

text \<open>
  The six rank names of \<open>rank_order\<close> (controller.py) and of the enumeration
  \<open>ActorRank\<close> (data.py), in the order of the source; in Latin transliteration:
  Nachinayushchiy, Postoyannyy, Vedushchiy, Master, Zasluzhennyy, Narodnyy.
\<close>

definition rank_beginner :: ustring where
  "rank_beginner = [1053, 1072, 1095, 1080, 1085, 1072, 1102, 1097, 1080, 1081]"

definition rank_regular :: ustring where
  "rank_regular = [1055, 1086, 1089, 1090, 1086, 1103, 1085, 1085, 1099, 1081]"

definition rank_lead :: ustring where
  "rank_lead = [1042, 1077, 1076, 1091, 1097, 1080, 1081]"

definition rank_master :: ustring where
  "rank_master = [1052, 1072, 1089, 1090, 1077, 1088]"

definition rank_honored :: ustring where
  "rank_honored = [1047, 1072, 1089, 1083, 1091, 1078, 1077, 1085, 1085, 1099, 1081]"

definition rank_people :: ustring where
  "rank_people = [1053, 1072, 1088, 1086, 1076, 1085, 1099, 1081]"

definition rank_order :: "ustring list" where
  "rank_order =
     [rank_beginner, rank_regular, rank_lead, rank_master, rank_honored, rank_people]"

text \<open>Python's \<open>list.index\<close>: the first position of the value, and \<open>ValueError\<close>
  (here \<open>None\<close>) when the value is absent.\<close>

fun index_of :: "'a list \<Rightarrow> 'a \<Rightarrow> nat option" where
  "index_of [] y = None"
| "index_of (x # xs) y =
     (if x = y then Some 0 else map_option Suc (index_of xs y))"


section \<open>Contract cost estimator\<close>

text \<open>The keys of an actor row that the calculations read.\<close>

record actor =
  actor_id :: int
  rank :: ustring
  awards_count :: int
  experience :: int

record cost_breakdown =
  contract :: int
  premium :: rat
  total :: rat

text \<open>\<open>TheaterController.calculate_contract_cost\<close>.\<close>

definition calculate_contract_cost :: "actor \<Rightarrow> py_error + cost_breakdown" where
  "calculate_contract_cost a =
     (let base_cost = 30000 in
      case index_of rank_order (rank a) of
        None \<Rightarrow> Inl ValueError
      | Some i \<Rightarrow>
          let rank_bonus = int i * 10000;
              experience_bonus = experience a * 2000;
              awards_bonus = awards_count a * 5000;
              contract_cost = base_cost + rank_bonus + experience_bonus + awards_bonus;
              premium = rat_of_int contract_cost / 5
          in Inr \<lparr>contract = contract_cost, premium = premium,
                  total = rat_of_int contract_cost + premium\<rparr>)"

section \<open>The database\<close>

text \<open>
  The PostgreSQL tables of \<open>DatabaseManager.create_schema\<close>, each a list of rows in
  table order. Only the columns that the modelled operations read or write are kept
  (names, titles and role names are left out). \<open>game_data\<close> is the single row with
  \<open>id = 1\<close>. A query that fails inside the database (\<open>psycopg2.Error\<close>) is not modelled:
  every statement is taken to execute.
\<close>

text \<open>The column \<open>required_ranks\<close> has the type \<open>actor_rank[]\<close>; the driver hands it over
  either as text in the form \<open>{a,b}\<close> or as a list, and the settlement accepts both.\<close>

datatype ranks_value = RanksText ustring | RanksList "ustring list"

record plot =
  plot_id :: int
  minimum_budget :: int
  production_cost :: int
  roles_count :: int
  demand :: int
  required_ranks :: ranks_value

record performance =
  performance_id :: int
  perf_plot_id :: int
  year :: int
  budget :: int
  revenue :: int
  is_completed :: bool

record actor_performance =
  ap_actor_id :: int
  ap_performance_id :: int
  ap_contract_cost :: int

record db =
  actors :: "actor list"
  plots :: "plot list"
  performances :: "performance list"
  actor_performances :: "actor_performance list"
  current_year :: int
  capital :: int

text \<open>A row of \<open>get_actors_in_performance\<close>: the actor's columns and the contract cost
  of the assignment.\<close>

record cast_row = actor +
  contract_cost :: int


subsection \<open>Queries\<close>





subsection \<open>Updates\<close>






subsection \<open>Deleting a plot\<close>

text \<open>The two messages of \<open>delete_plot\<close>; in transliteration
  "Syuzhet ispol'zuetsya v spektaklyakh i ne mozhet byt' udalen" (the plot is used in
  performances and cannot be deleted) and "Minimal'noe chislo syuzhetov - 5" (the
  minimum number of plots is 5).\<close>

definition msg_plot_in_use :: ustring where
  "msg_plot_in_use =
     [1057, 1102, 1078, 1077, 1090, 32, 1080, 1089, 1087, 1086, 1083, 1100, 1079, 1091,
      1077, 1090, 1089, 1103, 32, 1074, 32, 1089, 1087, 1077, 1082, 1090, 1072, 1082,
      1083, 1103, 1093, 32, 1080, 32, 1085, 1077, 32, 1084, 1086, 1078, 1077, 1090, 32,
      1073, 1099, 1090, 1100, 32, 1091, 1076, 1072, 1083, 1077, 1085]"

definition msg_min_plots :: ustring where
  "msg_min_plots =
     [1052, 1080, 1085, 1080, 1084, 1072, 1083, 1100, 1085, 1086, 1077, 32, 1095, 1080,
      1089, 1083, 1086, 32, 1089, 1102, 1078, 1077, 1090, 1086, 1074, 32, 45, 32, 53]"

text \<open>\<open>DatabaseManager.delete_plot\<close>: the pair (success, message) and the database
  afterwards.\<close>

definition delete_plot :: "db \<Rightarrow> int \<Rightarrow> (bool \<times> ustring) \<times> db" where
  "delete_plot d pid =
     (if length (filter (\<lambda>p. perf_plot_id p = pid) (performances d)) > 0
      then ((False, msg_plot_in_use), d)
      else if length (plots d) \<le> 5
      then ((False, msg_min_plots), d)
      else ((True, []), d\<lparr>plots := filter (\<lambda>p. plot_id p \<noteq> pid) (plots d)\<rparr>))"

section \<open>Randomness\<close>





section \<open>Year skip\<close>



section \<open>Performance settlement\<close>

subsection \<open>Required ranks of the plot\<close>




subsection \<open>Rank compliance\<close>



subsection \<open>Bonus of the cast\<close>


subsection \<open>Outcome tier\<close>



subsection \<open>The figures of a settlement\<close>



subsection \<open>Awards and promotion\<close>





subsection \<open>The settlement\<close>







section \<open>Specification predicates\<close>


section \<open>Example data\<close>

text \<open>
  A database in the shape of \<open>init_sample_data\<close>: its ten actors, its first six plots
  and its three completed performances with their casts, and in addition two pending
  performances: performance 4 of plot 3 with a budget of 500000 and three assignments,
  the second of which is below the required rank, and performance 5 of plot 5 with a
  budget of 600000 and two assignments that meet the required ranks.
\<close>

definition mk_actor :: "int \<Rightarrow> ustring \<Rightarrow> int \<Rightarrow> int \<Rightarrow> actor" where
  "mk_actor i r aw ex = \<lparr>actor_id = i, rank = r, awards_count = aw, experience = ex\<rparr>"

definition mk_plot :: "int \<Rightarrow> int \<Rightarrow> int \<Rightarrow> int \<Rightarrow> int \<Rightarrow> ustring list \<Rightarrow> plot" where
  "mk_plot i mb pc rc dm rs =
     \<lparr>plot_id = i, minimum_budget = mb, production_cost = pc, roles_count = rc,
      demand = dm, required_ranks = RanksText ([123] @ concat (map (\<lambda>r. r @ [44]) (butlast rs))
                                               @ last rs @ [125])\<rparr>"

definition mk_performance :: "int \<Rightarrow> int \<Rightarrow> int \<Rightarrow> int \<Rightarrow> int \<Rightarrow> bool \<Rightarrow> performance" where
  "mk_performance i pl y b r c =
     \<lparr>performance_id = i, perf_plot_id = pl, year = y, budget = b, revenue = r,
      is_completed = c\<rparr>"

definition mk_link :: "int \<Rightarrow> int \<Rightarrow> int \<Rightarrow> actor_performance" where
  "mk_link a p c = \<lparr>ap_actor_id = a, ap_performance_id = p, ap_contract_cost = c\<rparr>"

definition sample_actors :: "actor list" where
  "sample_actors =
     [mk_actor 1 rank_lead 3 5, mk_actor 2 rank_honored 5 10, mk_actor 3 rank_people 8 15,
      mk_actor 4 rank_master 4 8, mk_actor 5 rank_regular 2 4, mk_actor 6 rank_beginner 0 2,
      mk_actor 7 rank_regular 1 3, mk_actor 8 rank_lead 3 7, mk_actor 9 rank_master 5 9,
      mk_actor 10 rank_honored 6 12]"

definition sample_plots :: "plot list" where
  "sample_plots =
     [mk_plot 1 500000 350000 6 8 [rank_lead, rank_master],
      mk_plot 2 800000 500000 8 9 [rank_master, rank_honored],
      mk_plot 3 400000 250000 5 7 [rank_regular, rank_lead],
      mk_plot 4 600000 400000 7 8 [rank_lead, rank_master],
      mk_plot 5 550000 350000 6 7 [rank_regular, rank_lead],
      mk_plot 6 700000 450000 7 9 [rank_master, rank_honored]]"

definition sample_performances :: "performance list" where
  "sample_performances =
     [mk_performance 1 1 2022 600000 950000 True,
      mk_performance 2 2 2023 850000 1200000 True,
      mk_performance 3 3 2024 500000 780000 True,
      mk_performance 4 3 2025 500000 0 False,
      mk_performance 5 5 2026 600000 0 False]"

definition sample_links :: "actor_performance list" where
  "sample_links =
     [mk_link 1 1 100000, mk_link 5 1 90000, mk_link 8 1 80000, mk_link 4 1 70000,
      mk_link 7 1 60000, mk_link 6 1 50000,
      mk_link 2 2 150000, mk_link 9 2 120000, mk_link 8 2 110000, mk_link 7 2 100000,
      mk_link 4 2 90000, mk_link 6 2 80000, mk_link 1 2 80000, mk_link 5 2 70000,
      mk_link 3 3 130000, mk_link 2 3 120000, mk_link 9 3 110000, mk_link 4 3 100000,
      mk_link 7 3 90000,
      mk_link 6 4 40000, mk_link 2 4 130000, mk_link 5 4 60000,
      mk_link 8 5 90000, mk_link 1 5 100000]"

definition sample_db :: db where
  "sample_db =
     \<lparr>actors = sample_actors, plots = sample_plots, performances = sample_performances,
      actor_performances = sample_links, current_year = 2025, capital = 1000000\<rparr>"


section \<open>Properties\<close>



lemma index_of_nth_distinct:
  "distinct xs \<Longrightarrow> i < length xs \<Longrightarrow> index_of xs (xs ! i) = Some i"
proof (induction xs arbitrary: i)
  case Nil
  then show ?case by simp
next
  case (Cons x xs)
  then show ?case by (cases i) auto
qed

lemma distinct_rank_order: "distinct rank_order"
  by (simp add: rank_order_def rank_beginner_def rank_regular_def rank_lead_def
      rank_master_def rank_honored_def rank_people_def)


text \<open>
  Claim C7. For an actor whose rank is one of the six known ranks (at position \<open>i\<close> of
  \<open>rank_order\<close>) the estimator succeeds with
  contract = 30000 + i * 10000 + experience * 2000 + awards * 5000,
  premium = contract / 5 and total = contract + premium; and the contract cost is
  strictly increasing in the rank index, in the experience and in the awards count,
  the other two being held fixed.
\<close>

theorem contract_cost_formula_and_monotone:
  assumes "index_of rank_order (rank a) = Some i"
  shows "(\<exists>c. calculate_contract_cost a = Inr c
            \<and> contract c = 30000 + int i * 10000 + experience a * 2000 + awards_count a * 5000
            \<and> premium c = rat_of_int (contract c) / 5
            \<and> total c = rat_of_int (contract c) + premium c)
       \<and> (\<forall>b j cb ca. index_of rank_order (rank b) = Some j
              \<and> calculate_contract_cost a = Inr ca \<and> calculate_contract_cost b = Inr cb \<longrightarrow>
            (i < j \<and> experience b = experience a \<and> awards_count b = awards_count a
               \<longrightarrow> contract ca < contract cb)
          \<and> (j = i \<and> experience a < experience b \<and> awards_count b = awards_count a
               \<longrightarrow> contract ca < contract cb)
          \<and> (j = i \<and> experience b = experience a \<and> awards_count a < awards_count b
               \<longrightarrow> contract ca < contract cb))"
  using assms by (auto simp: calculate_contract_cost_def)

theorem contract_cost_formula_and_monotone_witness:
  "index_of rank_order (rank \<lparr>actor_id = 1, rank = rank_lead, awards_count = 3, experience = 5\<rparr>)
     = Some 2
   \<and> calculate_contract_cost \<lparr>actor_id = 1, rank = rank_lead, awards_count = 3, experience = 5\<rparr>
     = Inr \<lparr>contract = 75000, premium = 15000, total = 90000\<rparr>
   \<and> (\<exists>cb. calculate_contract_cost
              \<lparr>actor_id = 2, rank = rank_master, awards_count = 3, experience = 5\<rparr> = Inr cb
          \<and> 75000 < contract cb)"
proof -
  let ?a = "\<lparr>actor_id = 1, rank = rank_lead, awards_count = 3, experience = 5\<rparr>"
  let ?b = "\<lparr>actor_id = 2, rank = rank_master, awards_count = 3, experience = 5\<rparr>"
  have ia: "index_of rank_order (rank ?a) = Some 2"
    by (simp add: rank_order_def rank_beginner_def rank_regular_def rank_lead_def)
  have ib: "index_of rank_order (rank ?b) = Some 3"
    by (simp add: rank_order_def rank_beginner_def rank_regular_def rank_lead_def
        rank_master_def)
  from contract_cost_formula_and_monotone [OF ia]
  obtain c where c: "calculate_contract_cost ?a = Inr c"
      "contract c = 30000 + int 2 * 10000 + experience ?a * 2000 + awards_count ?a * 5000"
      "premium c = rat_of_int (contract c) / 5"
      "total c = rat_of_int (contract c) + premium c"
    and mono: "\<And>b j cb ca. index_of rank_order (rank b) = Some j
              \<Longrightarrow> calculate_contract_cost ?a = Inr ca \<Longrightarrow> calculate_contract_cost b = Inr cb \<Longrightarrow>
            (2 < j \<and> experience b = experience ?a \<and> awards_count b = awards_count ?a
               \<longrightarrow> contract ca < contract cb)"
    by blast
  from contract_cost_formula_and_monotone [OF ib]
  obtain cb where cb: "calculate_contract_cost ?b = Inr cb" by blast
  have c1: "contract c = 75000" using c(2) by simp
  have "c = \<lparr>contract = 75000, premium = 15000, total = 90000\<rparr>"
    using c1 c(3) c(4) by (cases c) simp
  moreover have "75000 < contract cb"
    using mono [OF ib c(1) cb] c1 by simp
  ultimately show ?thesis using c(1) cb ia by blast
qed


text \<open>
  Claim C9. Deleting a plot that at least one performance refers to fails with the
  "plot in use" message and leaves the database, the plot included, as it was.
\<close>

theorem delete_plot_in_use:
  assumes "\<exists>p \<in> set (performances d). perf_plot_id p = pid"
  shows "delete_plot d pid = ((False, msg_plot_in_use), d)"
proof -
  from assms have "filter (\<lambda>p. perf_plot_id p = pid) (performances d) \<noteq> []"
    by (simp add: filter_empty_conv)
  then show ?thesis by (simp add: delete_plot_def)
qed

theorem delete_plot_in_use_witness:
  "(\<exists>p \<in> set (performances sample_db). perf_plot_id p = 3)
   \<and> delete_plot sample_db 3 = ((False, msg_plot_in_use), sample_db)
   \<and> plots (snd (delete_plot sample_db 3)) = sample_plots"
proof -
  have h: "\<exists>p \<in> set (performances sample_db). perf_plot_id p = 3"
    by (simp add: sample_db_def sample_performances_def mk_performance_def)
  from delete_plot_in_use [OF h] h show ?thesis by (simp add: sample_db_def)
qed

lemma length_filter_neq_distinct:
  "distinct (map f xs) \<Longrightarrow> length xs \<le> Suc (length (filter (\<lambda>x. f x \<noteq> k) xs))"
proof (induction xs)
  case Nil
  then show ?case by simp
next
  case (Cons x xs)
  show ?case
  proof (cases "f x = k")
    case True
    from Cons.prems have "f x \<notin> f ` set xs" by simp
    with True have "\<forall>y \<in> set xs. f y \<noteq> k" by blast
    then have "filter (\<lambda>x. f x \<noteq> k) xs = xs" by (simp add: filter_id_conv)
    with True show ?thesis by simp
  next
    case False
    with Cons show ?thesis by simp
  qed
qed

text \<open>
  Claim C10, as stated: with five plots or fewer the deletion fails with the message
  about the minimum number of plots. The check on performances comes first, so for a
  plot in use the message is the one of claim C9. Here plot 3 is in use and the table
  holds five plots.
\<close>

theorem delete_plot_minimum_count_counterexample:
  "length (plots (sample_db\<lparr>plots := take 5 sample_plots\<rparr>)) \<le> 5
   \<and> fst (delete_plot (sample_db\<lparr>plots := take 5 sample_plots\<rparr>) 3) \<noteq> (False, msg_min_plots)"
  by (simp add: delete_plot_def sample_db_def sample_plots_def sample_performances_def
      mk_performance_def msg_plot_in_use_def msg_min_plots_def)

text \<open>
  Claim C10, amended. With five plots or fewer and a plot that no performance refers
  to, the deletion fails with the message about the minimum number of plots and
  changes nothing; with five plots or fewer the deletion fails without a change in
  every case; and a successful deletion leaves at least five plots.
\<close>

theorem delete_plot_minimum_count:
  "(length (plots d) \<le> 5 \<and> (\<forall>p \<in> set (performances d). perf_plot_id p \<noteq> pid)
      \<longrightarrow> delete_plot d pid = ((False, msg_min_plots), d))
   \<and> (length (plots d) \<le> 5
      \<longrightarrow> fst (fst (delete_plot d pid)) = False \<and> snd (delete_plot d pid) = d)
   \<and> (distinct (map plot_id (plots d)) \<and> fst (fst (delete_plot d pid)) = True
      \<longrightarrow> 5 \<le> length (plots (snd (delete_plot d pid))))"
proof (intro conjI impI)
  assume a: "length (plots d) \<le> 5 \<and> (\<forall>p \<in> set (performances d). perf_plot_id p \<noteq> pid)"
  then have "filter (\<lambda>p. perf_plot_id p = pid) (performances d) = []"
    by (simp add: filter_empty_conv)
  with a show "delete_plot d pid = ((False, msg_min_plots), d)"
    by (simp add: delete_plot_def)
next
  assume "length (plots d) \<le> 5"
  then show "fst (fst (delete_plot d pid)) = False" by (simp add: delete_plot_def)
next
  assume "length (plots d) \<le> 5"
  then show "snd (delete_plot d pid) = d" by (simp add: delete_plot_def)
next
  assume a: "distinct (map plot_id (plots d)) \<and> fst (fst (delete_plot d pid)) = True"
  then have big: "5 < length (plots d)"
    and eq: "snd (delete_plot d pid) = d\<lparr>plots := filter (\<lambda>p. plot_id p \<noteq> pid) (plots d)\<rparr>"
    by (auto simp: delete_plot_def split: if_splits)
  from a length_filter_neq_distinct [of plot_id "plots d" pid]
  have "length (plots d) \<le> Suc (length (filter (\<lambda>p. plot_id p \<noteq> pid) (plots d)))" by simp
  with big eq show "5 \<le> length (plots (snd (delete_plot d pid)))" by simp
qed

theorem delete_plot_minimum_count_witness:
  "length (plots (sample_db\<lparr>plots := take 5 sample_plots\<rparr>)) \<le> 5
   \<and> delete_plot (sample_db\<lparr>plots := take 5 sample_plots\<rparr>) 4
       = ((False, msg_min_plots), sample_db\<lparr>plots := take 5 sample_plots\<rparr>)
   \<and> distinct (map plot_id (plots sample_db))
   \<and> fst (fst (delete_plot sample_db 6)) = True
   \<and> 5 \<le> length (plots (snd (delete_plot sample_db 6)))"
proof -
  let ?d = "sample_db\<lparr>plots := take 5 sample_plots\<rparr>"
  have l: "length (plots ?d) \<le> 5" by (simp add: sample_plots_def)
  have u: "\<forall>p \<in> set (performances ?d). perf_plot_id p \<noteq> 4"
    by (simp add: sample_db_def sample_performances_def mk_performance_def)
  have dist: "distinct (map plot_id (plots sample_db))"
    by (simp add: sample_db_def sample_plots_def mk_plot_def)
  have ok: "fst (fst (delete_plot sample_db 6)) = True"
    by (simp add: delete_plot_def sample_db_def sample_plots_def sample_performances_def
        mk_performance_def)
  from delete_plot_minimum_count [of ?d 4] l u
  have "delete_plot ?d 4 = ((False, msg_min_plots), ?d)" by blast
  moreover from delete_plot_minimum_count [of sample_db 6] dist ok
  have "5 \<le> length (plots (snd (delete_plot sample_db 6)))" by blast
  ultimately show ?thesis using l dist ok by blast
qed

subsection \<open>Arithmetic of the draws\<close>



subsection \<open>Year skip\<close>



subsection \<open>Queries\<close>
















subsection \<open>The figures\<close>









subsection \<open>Awards and promotion\<close>




subsection \<open>Sorting the cast\<close>






subsection \<open>The stored settlement\<close>






subsection \<open>The settlement as a whole\<close>



















































end
